theory Spec2Isabelle
  imports Main "HOL-Library.Sublist" "HOL-Library.Char_ord" "HOL-Library.List_Lexorder"
begin

section \<open>Data model of the key validator (src/src/App.tsx)\<close>

text \<open>
  The application is one React component. Its result table is the mutable array
  \<open>resultsRef.current\<close> of \<open>KeyResult\<close> objects, its run state the mutable cell
  \<open>statusRef.current\<close> (mirrored, except for \<open>stopped\<close>, in the React state \<open>status\<close>).
  Strings are modelled as \<^typ>\<open>string\<close>; the credentials the program handles are ASCII, so
  a character is one code unit.
\<close>

text \<open>A value produced by \<open>JSON.parse\<close>. Only integer-valued numbers are represented; the
  program never computes with a number of a response body, it only tests its truthiness.\<close>

datatype json =
    JNull
  | JBool bool
  | JNum int
  | JStr string
  | JArr "json list"
  | JObj "(string \<times> json) list"

text \<open>The text of an error message stored in a table entry. The field is declared
  \<open>errorMsg?: string\<close>, but it is assigned unchecked from a parsed body (\<open>any\<close>), so it holds a
  JSON value; a string \<open>s\<close> is \<open>Msg (JStr s)\<close>. \<open>TypeErrorMsg\<close> stands for the message text of a
  \<open>TypeError\<close> raised by the JavaScript engine itself, whose wording the engine fixes.\<close>

datatype errmsg = Msg json | TypeErrorMsg

datatype key_status = Pending | Validating | Valid | Invalid | Error

datatype run_status = Idle | Running | Paused | Stopped

record KeyResult =
  key :: string
  status :: key_status
  models :: "string list"
  errorMsg :: "errmsg option"

section \<open>String helpers of the JavaScript library\<close>

text \<open>\<open>s.substring(a, b)\<close> for non-negative indices: both are clamped to the length and
  swapped when \<open>a > b\<close>. \<open>s.substring(a)\<close> runs to the end.\<close>

definition substring :: "string \<Rightarrow> nat \<Rightarrow> nat \<Rightarrow> string" where
  "substring s a b =
     (let n = length s; a' = min a n; b' = min b n;
          lo = min a' b'; hi = max a' b'
      in take (hi - lo) (drop lo s))"

definition substring_from :: "string \<Rightarrow> nat \<Rightarrow> string" where
  "substring_from s a = drop (min a (length s)) s"



text \<open>Insertion into a JavaScript \<open>Set\<close>, which iterates in first-insertion order, and
  \<open>Array.from(new Set(xs))\<close>.\<close>

definition set_add :: "'a list \<Rightarrow> 'a \<Rightarrow> 'a list" where
  "set_add ks k = (if k \<in> set ks then ks else ks @ [k])"

definition set_add_all :: "'a list \<Rightarrow> 'a list \<Rightarrow> 'a list" where
  "set_add_all ks xs = foldl set_add ks xs"

definition array_from_set :: "'a list \<Rightarrow> 'a list" where
  "array_from_set xs = set_add_all [] xs"

section \<open>Masking a credential for display\<close>

definition maskKey :: "string \<Rightarrow> string" where
  "maskKey k =
     (if length k \<le> 10 then ''***''
      else substring k 0 7 @ ''...'' @ substring_from k (length k - 4))"

section \<open>Seeding the result table and building the work queue (handleValidate)\<close>

text \<open>\<open>xs.every((k, i) => k === ys[i])\<close>; reading \<open>ys[i]\<close> out of range gives \<open>undefined\<close>,
  which no string equals.\<close>

definition every_same :: "string list \<Rightarrow> string list \<Rightarrow> bool" where
  "every_same xs ys =
     list_all (\<lambda>(i, k). i < length ys \<and> k = ys ! i) (enumerate 0 xs)"

definition keysMatch :: "string list \<Rightarrow> string list \<Rightarrow> bool" where
  "keysMatch uniqueKeys existingKeys =
     (length uniqueKeys = length existingKeys \<and> every_same uniqueKeys existingKeys)"

definition fresh_entry :: "string \<Rightarrow> KeyResult" where
  "fresh_entry k = \<lparr>key = k, status = Pending, models = [], errorMsg = None\<rparr>"

definition seed :: "KeyResult list \<Rightarrow> string list \<Rightarrow> KeyResult list" where
  "seed results uniqueKeys =
     (if \<not> keysMatch uniqueKeys (map key results) then map fresh_entry uniqueKeys
      else results)"

definition build_queue :: "KeyResult list \<Rightarrow> nat list" where
  "build_queue results =
     map fst
       (filter (\<lambda>(idx, st). st = Pending \<or> st = Error)
          (map (\<lambda>(idx, r). (idx, status r)) (enumerate 0 results)))"

definition CONCURRENCY :: "int \<Rightarrow> int" where
  "CONCURRENCY concurrencyLimit = max 1 (min 50 concurrencyLimit)"

section \<open>Classifying the response of the validation call (processNext)\<close>

text \<open>A JavaScript value read from a parsed body is a \<^typ>\<open>json\<close> or \<open>undefined\<close>
  (\<open>None\<close>). Reading a property of \<open>null\<close> or \<open>undefined\<close> throws a \<open>TypeError\<close> (the outer
  \<open>None\<close>); an object gives the value of its last member of that name, as \<open>JSON.parse\<close>
  keeps it, or \<open>undefined\<close>; strings, numbers, booleans and arrays have none of the
  properties read here.\<close>

definition get_prop :: "json option \<Rightarrow> string \<Rightarrow> json option option" where
  "get_prop v p =
     (case v of
        None \<Rightarrow> None
      | Some JNull \<Rightarrow> None
      | Some (JObj kvs) \<Rightarrow> Some (map_of (rev kvs) p)
      | Some _ \<Rightarrow> Some None)"

fun truthy :: "json option \<Rightarrow> bool" where
  "truthy None = False"
| "truthy (Some JNull) = False"
| "truthy (Some (JBool b)) = b"
| "truthy (Some (JNum n)) = (n \<noteq> 0)"
| "truthy (Some (JStr s)) = (s \<noteq> [])"
| "truthy (Some (JArr xs)) = True"
| "truthy (Some (JObj kvs)) = True"

definition known_prefixes :: "string list" where
  "known_prefixes =
     [''gpt-'', ''o1'', ''o3'', ''dall-e'', ''whisper'', ''tts'', ''text-embedding'']"

definition wanted :: "string \<Rightarrow> bool" where
  "wanted m = list_ex (\<lambda>p. prefix p m) known_prefixes"

text \<open>\<open>data.data.map(m => m.id)\<close>: \<open>None\<close> when a \<open>TypeError\<close> is thrown, which is when
  \<open>data\<close> is \<open>null\<close>, \<open>data.data\<close> is not an array, or a member of it is \<open>null\<close>.\<close>

definition ids_of :: "json \<Rightarrow> json option list option" where
  "ids_of d =
     (case get_prop (Some d) ''data'' of
        Some (Some (JArr ms)) \<Rightarrow> those (map (\<lambda>m. get_prop (Some m) ''id'') ms)
      | _ \<Rightarrow> None)"

text \<open>\<open>.filter(m => m.startsWith(...) || ...)\<close>: calling \<open>startsWith\<close> on anything but a
  string throws.\<close>

definition as_string :: "json option \<Rightarrow> string option" where
  "as_string v = (case v of Some (JStr s) \<Rightarrow> Some s | _ \<Rightarrow> None)"

definition filter_ids :: "json option list \<Rightarrow> string list option" where
  "filter_ids ids = map_option (filter wanted) (those (map as_string ids))"

definition models_of :: "json \<Rightarrow> string list option" where
  "models_of d = (case ids_of d of None \<Rightarrow> None | Some ids \<Rightarrow> map_option sort (filter_ids ids))"

text \<open>\<open>errData.error && errData.error.message\<close>, when it is truthy: the value assigned to
  \<open>errorMsg\<close>. \<open>None\<close> when the default message stays, which includes the \<open>TypeError\<close> of
  reading \<open>null.error\<close>, swallowed by the inner \<open>catch\<close>.\<close>

definition error_message :: "json \<Rightarrow> json option" where
  "error_message errData =
     (case get_prop (Some errData) ''error'' of
        None \<Rightarrow> None
      | Some e \<Rightarrow>
          if truthy e then
            (case get_prop e ''message'' of
               None \<Rightarrow> None
             | Some m \<Rightarrow> if truthy m then m else None)
          else None)"

text \<open>Decimal digits of a number, as a template literal prints \<open>response.status\<close>.\<close>

definition digit_char :: "nat \<Rightarrow> char" where
  "digit_char d = ''0123456789'' ! d"

function show_nat :: "nat \<Rightarrow> string" where
  "show_nat n = (if n < 10 then [digit_char n] else show_nat (n div 10) @ [digit_char (n mod 10)])"
  by pat_completeness auto
termination
  by (relation "measure id") auto

declare show_nat.simps [simp del]

definition http_msg :: "nat \<Rightarrow> errmsg" where
  "http_msg st = Msg (JStr (''HTTP '' @ show_nat st))"

text \<open>What the environment answers: \<open>fetch\<close> rejects with an error carrying a message, or
  resolves with a response of some HTTP status; \<open>response.json()\<close> rejects or gives the
  parsed body.\<close>

datatype fetch_result = Rejected string | Response nat

datatype json_result = JsonThrows string | JsonValue json

definition response_ok :: "nat \<Rightarrow> bool" where
  "response_ok st = (200 \<le> st \<and> st \<le> 299)"

definition write_valid :: "string list \<Rightarrow> KeyResult \<Rightarrow> KeyResult" where
  "write_valid ms r = r\<lparr>status := Valid, models := ms\<rparr>"

definition write_invalid :: "errmsg \<Rightarrow> KeyResult \<Rightarrow> KeyResult" where
  "write_invalid m r = r\<lparr>status := Invalid, errorMsg := Some m\<rparr>"

definition write_error :: "errmsg \<Rightarrow> KeyResult \<Rightarrow> KeyResult" where
  "write_error m r = r\<lparr>status := Error, errorMsg := Some m\<rparr>"

text \<open>The branch \<open>response.ok\<close> once \<open>response.json()\<close> has settled; an exception goes to
  the outer \<open>catch\<close>.\<close>

definition finish_ok :: "json_result \<Rightarrow> KeyResult \<Rightarrow> KeyResult" where
  "finish_ok b r =
     (case b of
        JsonThrows m \<Rightarrow> write_error (Msg (JStr m)) r
      | JsonValue d \<Rightarrow>
          (case models_of d of
             None \<Rightarrow> write_error TypeErrorMsg r
           | Some ms \<Rightarrow> write_valid ms r))"

text \<open>The other branch; its inner \<open>try\<close> swallows every exception.\<close>

definition finish_not_ok :: "nat \<Rightarrow> json_result \<Rightarrow> KeyResult \<Rightarrow> KeyResult" where
  "finish_not_ok st b r =
     write_invalid
       (case b of
          JsonThrows m \<Rightarrow> http_msg st
        | JsonValue d \<Rightarrow> (case error_message d of None \<Rightarrow> http_msg st | Some m \<Rightarrow> Msg m))
       r"

text \<open>One validation attempt that is not interrupted by a stop, from the two answers of
  the environment.\<close>

definition classify :: "fetch_result \<Rightarrow> json_result \<Rightarrow> KeyResult \<Rightarrow> KeyResult" where
  "classify f b r =
     (case f of
        Rejected m \<Rightarrow> write_error (Msg (JStr m)) r
      | Response st \<Rightarrow> if response_ok st then finish_ok b r else finish_not_ok st b r)"


section \<open>Finding credentials in text\<close>

text \<open>The pattern \<open>/sk-[a-zA-Z0-9_-]+/g\<close>. \<open>is_key_char\<close> is its character class and
  \<open>match_here\<close> says that the pattern matches at the start of the text: the three literal
  characters and at least one character of the class.\<close>

definition is_key_char :: "char \<Rightarrow> bool" where
  "is_key_char c =
     ((CHR ''a'' \<le> c \<and> c \<le> CHR ''z'') \<or> (CHR ''A'' \<le> c \<and> c \<le> CHR ''Z'') \<or>
      (CHR ''0'' \<le> c \<and> c \<le> CHR ''9'') \<or> c = CHR ''_'' \<or> c = CHR ''-'')"

fun match_here :: "string \<Rightarrow> bool" where
  "match_here (a # b # c # d # rest) =
     (a = CHR ''s'' \<and> b = CHR ''k'' \<and> c = CHR ''-'' \<and> is_key_char d)"
| "match_here _ = False"

text \<open>\<open>text.match(/sk-[a-zA-Z0-9_-]+/g) || []\<close>: the matches from left to right. A match
  takes the longest run of class characters (the quantifier is greedy and nothing
  follows it), and the search goes on behind the match; where the pattern does not match,
  the search moves on by one character.\<close>

function matchAll :: "string \<Rightarrow> string list" where
  "matchAll [] = []"
| "matchAll (c # cs) =
     (if match_here (c # cs)
      then (''sk-'' @ takeWhile is_key_char (drop 3 (c # cs)))
             # matchAll (dropWhile is_key_char (drop 3 (c # cs)))
      else matchAll cs)"
  by pat_completeness auto
termination
proof (relation "measure length")
  show "wf (measure length)" by simp
next
  fix c :: char and cs :: string
  have "length (dropWhile is_key_char (drop 3 (c # cs))) \<le> length (drop 3 (c # cs))"
    by (rule length_dropWhile_le)
  then show "(dropWhile is_key_char (drop 3 (c # cs)), c # cs) \<in> measure length"
    by simp
next
  fix c :: char and cs :: string
  show "(cs, c # cs) \<in> measure length" by simp
qed

declare matchAll.simps(2) [simp del]

text \<open>The keys of a text held in memory (handleValidate, and processFile for the formats
  that are not read in chunks).\<close>

definition extractKeys :: "string \<Rightarrow> string list" where
  "extractKeys text = array_from_set (matchAll text)"

text \<open>The words of the specification for a text that holds a credential: some substring of
  it has the credential shape, the literal prefix followed by one or more characters of
  the alphabet.\<close>

definition has_token :: "string \<Rightarrow> bool" where
  "has_token text =
     (\<exists>pre body post. text = pre @ ''sk-'' @ body @ post \<and> body \<noteq> [] \<and>
        (\<forall>c \<in> set body. is_key_char c))"

subsection \<open>Reading a file in chunks (extractKeysFromText)\<close>

text \<open>The file is a sequence of bytes, each one character (ASCII text). The loop of
  \<open>extractKeysFromText\<close>, with the chunk size as a parameter: the source fixes it to 10 MiB.
  With a chunk size of 0 the source's loop would not advance; the model then leaves the
  loop, and every statement about it is for a positive chunk size.\<close>

definition newline :: char where
  "newline = CHR 0x0A"






section \<open>The scheduler: handleValidate, processNext, handlePause, handleStop\<close>

text \<open>
  JavaScript runs one task at a time, so a piece of an \<open>async\<close> function between two
  \<open>await\<close>s is atomic. A worker (one call of \<open>processNext\<close>) is therefore modelled by the
  \<open>await\<close> it is suspended at; a step runs it from there to its next \<open>await\<close> or to its end.
\<close>

datatype pc =
    AwaitFetch nat          \<comment> \<open>\<open>await fetch(...)\<close> for index \<open>i\<close>\<close>
  | AwaitJsonOk nat         \<comment> \<open>\<open>await response.json()\<close>, \<open>response.ok\<close>\<close>
  | AwaitJsonErr nat nat    \<comment> \<open>\<open>await response.json()\<close>, index and HTTP status\<close>
  | PauseWait               \<comment> \<open>the 200 ms timer of the pause loop\<close>
  | AwaitDelay              \<comment> \<open>the 300 ms timer at the end of an attempt\<close>
  | Done                    \<comment> \<open>the loop was left; the promise is resolved\<close>
  | Crashed                 \<comment> \<open>an exception left \<open>processNext\<close>; the promise is rejected\<close>

text \<open>One call of \<open>handleValidate\<close> that got as far as starting workers: its queue, which
  its workers share, and whether the code behind \<open>await Promise.all(workers)\<close> has run.\<close>

record run =
  queue :: "nat list"
  settled :: bool

text \<open>The state of the component: the text area, the React state \<open>status\<close> (as of the last
  render), \<open>statusRef.current\<close>, the concurrency field, \<open>resultsRef.current\<close>, the runs
  started so far and all workers, each with the number of its run.\<close>

record app =
  input :: string
  ui_status :: run_status
  statusRef :: run_status
  concurrencyLimit :: int
  results :: "KeyResult list"
  runs :: "run list"
  workers :: "(nat \<times> pc) list"

definition updateStatus :: "run_status \<Rightarrow> app \<Rightarrow> app" where
  "updateStatus newStatus s =
     s\<lparr>statusRef := newStatus,
       ui_status := (if newStatus = Stopped then Idle else newStatus)\<rparr>"

text \<open>\<open>resultsRef.current[i].f = ...\<close>: \<open>None\<close> is the \<open>TypeError\<close> of an index that the table
  does not have.\<close>

definition update_entry ::
  "nat \<Rightarrow> (KeyResult \<Rightarrow> KeyResult) \<Rightarrow> KeyResult list \<Rightarrow> KeyResult list option" where
  "update_entry i f rs = (if i < length rs then Some (rs[i := f (rs ! i)]) else None)"

definition set_status :: "key_status \<Rightarrow> KeyResult \<Rightarrow> KeyResult" where
  "set_status st r = r\<lparr>status := st\<rparr>"

text \<open>From the second \<open>if (statusRef.current === 'stopped') break\<close> of the loop body to the
  \<open>await fetch\<close>: the worker takes the first index of the queue and marks its entry.\<close>

definition take_next :: "run_status \<Rightarrow> nat list \<Rightarrow> KeyResult list \<Rightarrow> pc \<times> nat list \<times> KeyResult list" where
  "take_next sref q rs =
     (if sref = Stopped then (Done, q, rs)
      else case q of
             [] \<Rightarrow> (Done, q, rs)
           | i # q' \<Rightarrow>
               (case update_entry i (set_status Validating) rs of
                  None \<Rightarrow> (Crashed, q', rs)
                | Some rs' \<Rightarrow> (AwaitFetch i, q', rs')))"

text \<open>From the loop condition \<open>queue.length > 0\<close> to the next \<open>await\<close>.\<close>

definition loop_head :: "run_status \<Rightarrow> nat list \<Rightarrow> KeyResult list \<Rightarrow> pc \<times> nat list \<times> KeyResult list" where
  "loop_head sref q rs =
     (if q = [] then (Done, q, rs)
      else if sref = Stopped then (Done, q, rs)
      else if sref = Paused then (PauseWait, q, rs)
      else take_next sref q rs)"

text \<open>After the 200 ms timer: \<open>if (stopped) break\<close>, then the condition of the pause loop
  again.\<close>

definition pause_tick :: "run_status \<Rightarrow> nat list \<Rightarrow> KeyResult list \<Rightarrow> pc \<times> nat list \<times> KeyResult list" where
  "pause_tick sref q rs =
     (if sref = Stopped then (Done, q, rs)
      else if sref = Paused then (PauseWait, q, rs)
      else take_next sref q rs)"

text \<open>When \<open>fetch\<close> settles. A rejection goes to the \<open>catch\<close>; a response is dropped when
  the run state is \<open>stopped\<close> at that moment, and otherwise its body is read.\<close>

definition fetch_done ::
  "run_status \<Rightarrow> nat \<Rightarrow> fetch_result \<Rightarrow> KeyResult list \<Rightarrow> pc \<times> KeyResult list" where
  "fetch_done sref i f rs =
     (case f of
        Rejected m \<Rightarrow>
          (case update_entry i (write_error (Msg (JStr m))) rs of
             None \<Rightarrow> (Crashed, rs)
           | Some rs' \<Rightarrow> (AwaitDelay, rs'))
      | Response st \<Rightarrow>
          if sref = Stopped then
            (case update_entry i (set_status Pending) rs of
               None \<Rightarrow> (Crashed, rs)
             | Some rs' \<Rightarrow> (Done, rs'))
          else if response_ok st then (AwaitJsonOk i, rs)
          else (AwaitJsonErr i st, rs))"

text \<open>When \<open>response.json()\<close> settles, in either branch.\<close>

definition json_done :: "nat \<Rightarrow> (KeyResult \<Rightarrow> KeyResult) \<Rightarrow> KeyResult list \<Rightarrow> pc \<times> KeyResult list" where
  "json_done i f rs =
     (case update_entry i f rs of
        None \<Rightarrow> (Crashed, rs)
      | Some rs' \<Rightarrow> (AwaitDelay, rs'))"

text \<open>What can happen next: a click on one of the three buttons, a worker's timer, the
  answer to a worker's \<open>fetch\<close> or \<open>response.json()\<close>, and the continuation of a run's
  \<open>handleValidate\<close> behind \<open>Promise.all\<close>. Workers are named by their position in
  \<open>workers\<close>.\<close>

datatype event =
    ClickValidate
  | ClickPause
  | ClickStop
  | Timer nat
  | FetchDone nat fetch_result
  | JsonDone nat json_result
  | AllDone nat

definition set_worker :: "nat \<Rightarrow> pc \<Rightarrow> nat list \<Rightarrow> KeyResult list \<Rightarrow> app \<Rightarrow> app" where
  "set_worker w p q rs s =
     (let r = fst (workers s ! w)
      in s\<lparr>workers := (workers s)[w := (r, p)],
           runs := (runs s)[r := (runs s ! r)\<lparr>queue := q\<rparr>],
           results := rs\<rparr>)"

definition queue_of :: "app \<Rightarrow> nat \<Rightarrow> nat list" where
  "queue_of s w = queue (runs s ! fst (workers s ! w))"

text \<open>A call of \<open>processNext()\<close> by run \<open>r\<close>: it runs to its first \<open>await\<close> at once.\<close>

definition processNext :: "nat \<Rightarrow> app \<Rightarrow> app" where
  "processNext r s =
     (case loop_head (statusRef s) (queue (runs s ! r)) (results s) of
        (p, q, rs) \<Rightarrow>
          s\<lparr>workers := workers s @ [(r, p)],
            runs := (runs s)[r := (runs s ! r)\<lparr>queue := q\<rparr>],
            results := rs\<rparr>)"

fun start_workers :: "nat \<Rightarrow> nat \<Rightarrow> app \<Rightarrow> app" where
  "start_workers 0 r s = s"
| "start_workers (Suc n) r s = start_workers n r (processNext r s)"

text \<open>\<open>handleValidate\<close> up to \<open>await Promise.all(workers)\<close>.\<close>

definition handleValidate :: "app \<Rightarrow> app" where
  "handleValidate s =
     (if ui_status s = Paused then updateStatus Running s
      else
        let uniqueKeys = extractKeys (input s) in
        if length uniqueKeys = 0 then s
        else
          let s1 = updateStatus Running (s\<lparr>results := seed (results s) uniqueKeys\<rparr>);
              q = build_queue (results s1);
              concurrency = min (CONCURRENCY (concurrencyLimit s)) (int (length q));
              r = length (runs s1)
          in start_workers (nat concurrency) r
               (s1\<lparr>runs := runs s1 @ [\<lparr>queue = q, settled = False\<rparr>]\<rparr>))"

definition handlePause :: "app \<Rightarrow> app" where
  "handlePause s = updateStatus Paused s"

definition revert_validating :: "KeyResult \<Rightarrow> KeyResult" where
  "revert_validating r = (if status r = Validating then r\<lparr>status := Pending\<rparr> else r)"

definition handleStop :: "app \<Rightarrow> app" where
  "handleStop s = (updateStatus Stopped s)\<lparr>results := map revert_validating (results s)\<rparr>"

text \<open>The code of \<open>handleValidate\<close> behind \<open>await Promise.all(workers)\<close>.\<close>

definition all_done :: "nat \<Rightarrow> app \<Rightarrow> app" where
  "all_done r s =
     (let s1 = s\<lparr>runs := (runs s)[r := (runs s ! r)\<lparr>settled := True\<rparr>]\<rparr>
      in if statusRef s1 \<noteq> Stopped then updateStatus Idle s1 else s1)"

definition workers_of :: "app \<Rightarrow> nat \<Rightarrow> pc list" where
  "workers_of s r = map snd (filter (\<lambda>(r', p). r' = r) (workers s))"

text \<open>One step of the component; \<open>None\<close> when the event cannot happen in the state: the
  button is not shown, or the worker does not wait for that. The start button is shown
  when \<open>status\<close> is \<open>idle\<close>, the pause button when it is \<open>running\<close>, the resume button (it
  calls \<open>handleValidate\<close> as well) when it is \<open>paused\<close>, and the stop button unless it is
  \<open>idle\<close>.\<close>

definition step :: "event \<Rightarrow> app \<Rightarrow> app option" where
  "step e s =
     (case e of
        ClickValidate \<Rightarrow>
          if ui_status s = Idle \<or> ui_status s = Paused then Some (handleValidate s) else None
      | ClickPause \<Rightarrow> if ui_status s = Running then Some (handlePause s) else None
      | ClickStop \<Rightarrow> if ui_status s \<noteq> Idle then Some (handleStop s) else None
      | Timer w \<Rightarrow>
          if w < length (workers s) then
            (case snd (workers s ! w) of
               PauseWait \<Rightarrow>
                 (case pause_tick (statusRef s) (queue_of s w) (results s) of
                    (p, q, rs) \<Rightarrow> Some (set_worker w p q rs s))
             | AwaitDelay \<Rightarrow>
                 (case loop_head (statusRef s) (queue_of s w) (results s) of
                    (p, q, rs) \<Rightarrow> Some (set_worker w p q rs s))
             | _ \<Rightarrow> None)
          else None
      | FetchDone w f \<Rightarrow>
          if w < length (workers s) then
            (case snd (workers s ! w) of
               AwaitFetch i \<Rightarrow>
                 (case fetch_done (statusRef s) i f (results s) of
                    (p, rs) \<Rightarrow> Some (set_worker w p (queue_of s w) rs s))
             | _ \<Rightarrow> None)
          else None
      | JsonDone w b \<Rightarrow>
          if w < length (workers s) then
            (case snd (workers s ! w) of
               AwaitJsonOk i \<Rightarrow>
                 (case json_done i (finish_ok b) (results s) of
                    (p, rs) \<Rightarrow> Some (set_worker w p (queue_of s w) rs s))
             | AwaitJsonErr i st \<Rightarrow>
                 (case json_done i (finish_not_ok st b) (results s) of
                    (p, rs) \<Rightarrow> Some (set_worker w p (queue_of s w) rs s))
             | _ \<Rightarrow> None)
          else None
      | AllDone r \<Rightarrow>
          if r < length (runs s) \<and> \<not> settled (runs s ! r) \<and>
             list_all (\<lambda>p. p = Done) (workers_of s r)
          then Some (all_done r s) else None)"

fun exec :: "event list \<Rightarrow> app \<Rightarrow> app option" where
  "exec [] s = Some s"
| "exec (e # es) s = (case step e s of None \<Rightarrow> None | Some s' \<Rightarrow> exec es s')"

subsection \<open>States used in examples\<close>

text \<open>A fresh component with one credential in the text area, and one with three
  credentials on three lines; the concurrency field holds 1.\<close>

definition single_key :: app where
  "single_key =
     \<lparr>input = ''sk-a'', ui_status = Idle, statusRef = Idle, concurrencyLimit = 1,
      results = [], runs = [], workers = []\<rparr>"


subsection \<open>Notions used to state the properties of a run\<close>

















section \<open>Properties\<close>

lemma substring_0: "substring s 0 b = take b s"
  by (simp add: substring_def Let_def min_def max_def)

lemma substring_from_eq: "substring_from s a = drop a s"
  by (simp add: substring_from_def min_def)

lemma maskKey_long:
  "10 < length k \<Longrightarrow> maskKey k = take 7 k @ ''...'' @ drop (length k - 4) k"
  by (simp add: maskKey_def substring_0 substring_from_eq)

text \<open>
  C9. \<open>maskKey\<close> gives \<open>***\<close> for a credential of at most 10 characters. A longer one is
  shown as its first 7 characters, three dots and its last 4 characters. The characters
  left out are those from index 7 up to \<open>length - 4\<close>: there are \<open>length - 11\<close> of them, so
  a credential of exactly 11 characters is shown completely (the two segments put
  together are the credential) and something is hidden exactly from 12 characters on.
\<close>

theorem maskKey_spec:
  "(length k \<le> 10 \<longrightarrow> maskKey k = ''***'') \<and>
   (10 < length k \<longrightarrow>
      maskKey k = take 7 k @ ''...'' @ drop (length k - 4) k \<and>
      length (take 7 k) = 7 \<and> length (drop (length k - 4) k) = 4 \<and>
      k = take 7 k @ take (length k - 11) (drop 7 k) @ drop (length k - 4) k \<and>
      length (take (length k - 11) (drop 7 k)) = length k - 11 \<and>
      (take (length k - 11) (drop 7 k) \<noteq> [] \<longleftrightarrow> 12 \<le> length k)) \<and>
   (length k = 11 \<longrightarrow> take 7 k @ drop (length k - 4) k = k)"
proof (intro conjI impI)
  assume "length k \<le> 10"
  then show "maskKey k = ''***''"
    by (simp add: maskKey_def)
next
  assume "10 < length k"
  then show "maskKey k = take 7 k @ ''...'' @ drop (length k - 4) k"
    by (rule maskKey_long)
next
  assume "10 < length k"
  then show "length (take 7 k) = 7"
    by simp
next
  assume "10 < length k"
  then show "length (drop (length k - 4) k) = 4"
    by simp
next
  assume long: "10 < length k"
  then have "drop (length k - 4) k = drop (length k - 11) (drop 7 k)"
    by simp
  then show "k = take 7 k @ take (length k - 11) (drop 7 k) @ drop (length k - 4) k"
    by (simp only: append_take_drop_id)
next
  assume "10 < length k"
  then show "length (take (length k - 11) (drop 7 k)) = length k - 11"
    by simp
next
  assume "10 < length k"
  then show "(take (length k - 11) (drop 7 k) \<noteq> []) = (12 \<le> length k)"
    by auto
next
  assume "length k = 11"
  then show "take 7 k @ drop (length k - 4) k = k"
    by simp
qed

theorem maskKey_spec_witness:
  "maskKey ''sk-short'' = ''***'' \<and>
   maskKey ''sk-abcdefgh'' = ''sk-abcd...efgh'' \<and>
   maskKey ''sk-abcdefghi'' = ''sk-abcd...fghi''"
  using maskKey_spec [of "''sk-short''"] maskKey_spec [of "''sk-abcdefgh''"]
    maskKey_spec [of "''sk-abcdefghi''"]
  by simp

subsection \<open>Seeding\<close>

lemma every_same_iff:
  "every_same xs ys \<longleftrightarrow> (\<forall>i < length xs. i < length ys \<and> xs ! i = ys ! i)"
  by (auto simp: every_same_def list_all_iff in_set_enumerate_eq)

lemma keysMatch_iff: "keysMatch xs ys \<longleftrightarrow> xs = ys"
  by (auto simp: keysMatch_def every_same_iff list_eq_iff_nth_eq)

text \<open>
  C5. Seeding compares the incoming credential sequence with the table's credential
  sequence as sequences. When they are equal the table is returned as it is; when they
  differ in length or at some position, the table becomes one fresh entry per incoming
  credential, in the incoming order: status Pending, no models, no error message.
  (\<open>handleValidate\<close> gets to this point only with an incoming sequence that is not empty.)
\<close>

theorem seed_spec:
  "(uniqueKeys = map key tbl \<longrightarrow> seed tbl uniqueKeys = tbl) \<and>
   (uniqueKeys \<noteq> map key tbl \<longrightarrow>
      length (seed tbl uniqueKeys) = length uniqueKeys \<and>
      (\<forall>i < length uniqueKeys.
         seed tbl uniqueKeys ! i =
           \<lparr>key = uniqueKeys ! i, status = Pending, models = [], errorMsg = None\<rparr>))"
  by (simp add: seed_def keysMatch_iff fresh_entry_def)

theorem seed_spec_witness:
  "seed [\<lparr>key = ''sk-a'', status = Valid, models = [''gpt-4''], errorMsg = None\<rparr>] [''sk-a'']
     = [\<lparr>key = ''sk-a'', status = Valid, models = [''gpt-4''], errorMsg = None\<rparr>] \<and>
   seed [\<lparr>key = ''sk-a'', status = Valid, models = [''gpt-4''], errorMsg = None\<rparr>]
        [''sk-b'', ''sk-a'']
     = [\<lparr>key = ''sk-b'', status = Pending, models = [], errorMsg = None\<rparr>,
        \<lparr>key = ''sk-a'', status = Pending, models = [], errorMsg = None\<rparr>]"
proof -
  let ?t = "[\<lparr>key = ''sk-a'', status = Valid, models = [''gpt-4''], errorMsg = None\<rparr>]"
  have a: "seed ?t [''sk-a''] = ?t"
    using seed_spec [of "[''sk-a'']" ?t] by simp
  have b: "length (seed ?t [''sk-b'', ''sk-a'']) = 2 \<and>
      (\<forall>i < 2. seed ?t [''sk-b'', ''sk-a''] ! i =
         \<lparr>key = [''sk-b'', ''sk-a''] ! i, status = Pending, models = [], errorMsg = None\<rparr>)"
    using seed_spec [of "[''sk-b'', ''sk-a'']" ?t] by simp
  then have "seed ?t [''sk-b'', ''sk-a''] =
      [\<lparr>key = ''sk-b'', status = Pending, models = [], errorMsg = None\<rparr>,
       \<lparr>key = ''sk-a'', status = Pending, models = [], errorMsg = None\<rparr>]"
    by (auto simp: list_eq_iff_nth_eq less_Suc_eq numeral_2_eq_2)
  with a show ?thesis by simp
qed

subsection \<open>The queue\<close>

lemma build_queue_filter:
  "build_queue rs =
     filter (\<lambda>i. status (rs ! i) = Pending \<or> status (rs ! i) = Error) [0..<length rs]"
proof (induction rs rule: rev_induct)
  case Nil
  show ?case by (simp add: build_queue_def)
next
  case (snoc r rs)
  have old: "filter (\<lambda>i. status ((rs @ [r]) ! i) = Pending \<or> status ((rs @ [r]) ! i) = Error)
               [0..<length rs]
             = filter (\<lambda>i. status (rs ! i) = Pending \<or> status (rs ! i) = Error) [0..<length rs]"
    by (rule filter_cong) (auto simp: nth_append)
  show ?case
    using snoc.IH by (simp add: build_queue_def enumerate_append_eq old)
qed



lemma distinct_build_queue: "distinct (build_queue rs)"
  by (simp add: build_queue_filter)

subsection \<open>Classification of a response\<close>









subsection \<open>Texts without a credential\<close>

lemma match_here_iff:
  "match_here s \<longleftrightarrow> (\<exists>d rest. s = ''sk-'' @ d # rest \<and> is_key_char d)"
  by (cases s rule: match_here.cases) auto

lemma matchAll_nonempty_if_match: "match_here s \<Longrightarrow> matchAll s \<noteq> []"
  by (cases s) (simp_all add: matchAll.simps(2))

lemma matchAll_skip: "matchAll s \<noteq> [] \<Longrightarrow> matchAll (c # s) \<noteq> []"
  by (simp add: matchAll.simps(2))

lemma matchAll_prepend: "matchAll s \<noteq> [] \<Longrightarrow> matchAll (pre @ s) \<noteq> []"
  by (induction pre) (simp_all add: matchAll_skip)

lemma has_token_matchAll:
  assumes "has_token text"
  shows "matchAll text \<noteq> []"
proof -
  from assms obtain pre body post where
    t: "text = pre @ ''sk-'' @ body @ post" and b: "body \<noteq> []" "\<forall>c \<in> set body. is_key_char c"
    by (auto simp: has_token_def)
  from b obtain d ds where "body = d # ds" "is_key_char d"
    by (cases body) auto
  then have "match_here (''sk-'' @ body @ post)"
    by simp
  then have "matchAll (''sk-'' @ body @ post) \<noteq> []"
    by (rule matchAll_nonempty_if_match)
  then show ?thesis
    unfolding t by (rule matchAll_prepend)
qed

lemma has_token_Cons: "has_token s \<Longrightarrow> has_token (c # s)"
  unfolding has_token_def
  by (metis append_Cons)

lemma matchAll_has_token: "matchAll str \<noteq> [] \<Longrightarrow> has_token str"
proof (induction str)
  case Nil
  then show ?case by simp
next
  case (Cons c cs)
  show ?case
  proof (cases "match_here (c # cs)")
    case True
    then obtain d rest where "c # cs = ''sk-'' @ d # rest" "is_key_char d"
      by (auto simp: match_here_iff)
    then have "c # cs = [] @ ''sk-'' @ [d] @ rest \<and> [d] \<noteq> [] \<and> (\<forall>x \<in> set [d]. is_key_char x)"
      by simp
    then show ?thesis
      unfolding has_token_def by blast
  next
    case False
    with Cons.prems have "matchAll cs \<noteq> []"
      by (simp add: matchAll.simps(2))
    then show ?thesis
      using has_token_Cons Cons.IH by blast
  qed
qed

lemma matchAll_Nil_iff: "matchAll text = [] \<longleftrightarrow> \<not> has_token text"
  using has_token_matchAll matchAll_has_token by blast

lemma set_add_all_Nil_iff: "set_add_all ks xs = [] \<longleftrightarrow> ks = [] \<and> xs = []"
proof (induction xs arbitrary: ks)
  case Nil
  show ?case by (simp add: set_add_all_def)
next
  case (Cons x xs)
  have "set_add_all ks (x # xs) = set_add_all (set_add ks x) xs"
    by (simp add: set_add_all_def)
  moreover have "set_add ks x \<noteq> []"
    by (auto simp: set_add_def)
  ultimately show ?case
    using Cons.IH [of "set_add ks x"] by simp
qed

lemma extractKeys_Nil_iff: "extractKeys text = [] \<longleftrightarrow> \<not> has_token text"
  by (simp add: extractKeys_def array_from_set_def set_add_all_Nil_iff matchAll_Nil_iff)

text \<open>
  C10. When the text area holds no substring of the credential shape and the component
  is not paused (so that the click starts a run instead of resuming one),
  \<open>handleValidate\<close> returns the state it was given: table, statuses, run state, runs and
  workers are all unchanged.
\<close>

theorem handleValidate_no_token:
  assumes "ui_status s \<noteq> Paused" and "\<not> has_token (input s)"
  shows "handleValidate s = s"
  using assms by (simp add: handleValidate_def extractKeys_Nil_iff)

lemma no_token_hello: "\<not> has_token ''hello sk- world''"
  unfolding matchAll_Nil_iff [symmetric]
  by (simp add: matchAll.simps(2) is_key_char_def)

theorem handleValidate_no_token_witness:
  "handleValidate \<lparr>input = ''hello sk- world'', ui_status = Idle, statusRef = Idle,
      concurrencyLimit = 5,
      results = [\<lparr>key = ''sk-a'', status = Valid, models = [''gpt-4''], errorMsg = None\<rparr>],
      runs = [], workers = []\<rparr>
   = \<lparr>input = ''hello sk- world'', ui_status = Idle, statusRef = Idle,
      concurrencyLimit = 5,
      results = [\<lparr>key = ''sk-a'', status = Valid, models = [''gpt-4''], errorMsg = None\<rparr>],
      runs = [], workers = []\<rparr>"
  using handleValidate_no_token [of "\<lparr>input = ''hello sk- world'', ui_status = Idle, statusRef = Idle,
      concurrencyLimit = 5,
      results = [\<lparr>key = ''sk-a'', status = Valid, models = [''gpt-4''], errorMsg = None\<rparr>],
      runs = [], workers = []\<rparr>"] no_token_hello
  by simp

subsection \<open>A worker marks an entry\<close>

lemma exec_append:
  "exec (es @ es') s = (case exec es s of None \<Rightarrow> None | Some s' \<Rightarrow> exec es' s')"
  by (induction es arbitrary: s) (simp_all split: option.splits)

text \<open>
  C2, as the code has it. When a worker takes an index from the queue and marks its entry
  (\<open>resultsRef.current[i].status = 'validating'\<close>), the entry's status is the only thing
  that changes: key, models and error message keep the values they had.
\<close>

theorem take_next_marks_only_status:
  assumes "take_next sref q rs = (AwaitFetch i, q', rs')"
  shows "q = i # q' \<and> i < length rs \<and> rs' = rs[i := (rs ! i)\<lparr>status := Validating\<rparr>] \<and>
         status (rs' ! i) = Validating \<and> key (rs' ! i) = key (rs ! i) \<and>
         models (rs' ! i) = models (rs ! i) \<and> errorMsg (rs' ! i) = errorMsg (rs ! i)"
  using assms
  by (auto simp: take_next_def update_entry_def set_status_def split: if_splits list.splits)

theorem take_next_marks_only_status_witness:
  "take_next Running [1, 2]
     [\<lparr>key = ''sk-a'', status = Valid, models = [''gpt-4''], errorMsg = None\<rparr>,
      \<lparr>key = ''sk-b'', status = Pending, models = [], errorMsg = None\<rparr>,
      \<lparr>key = ''sk-c'', status = Pending, models = [], errorMsg = None\<rparr>]
   = (AwaitFetch 1, [2],
     [\<lparr>key = ''sk-a'', status = Valid, models = [''gpt-4''], errorMsg = None\<rparr>,
      \<lparr>key = ''sk-b'', status = Validating, models = [], errorMsg = None\<rparr>,
      \<lparr>key = ''sk-c'', status = Pending, models = [], errorMsg = None\<rparr>])"
proof -
  let ?rs = "[\<lparr>key = ''sk-a'', status = Valid, models = [''gpt-4''], errorMsg = None\<rparr>,
      \<lparr>key = ''sk-b'', status = Pending, models = [], errorMsg = None\<rparr>,
      \<lparr>key = ''sk-c'', status = Pending, models = [], errorMsg = None\<rparr>]"
  obtain p q' rs' where t: "take_next Running [1, 2] ?rs = (p, q', rs')"
    by (cases "take_next Running [1, 2] ?rs") auto
  then have p: "p = AwaitFetch 1"
    by (simp add: take_next_def update_entry_def)
  from take_next_marks_only_status [OF t [unfolded p]]
  have "q' = [2]" "rs' = ?rs[1 := (?rs ! 1)\<lparr>status := Validating\<rparr>]"
    by simp_all
  with t p show ?thesis by simp
qed

text \<open>
  C2 as it is worded fails: a credential whose call was rejected is recorded as Error with
  the message of the rejection; the run ends, the next run takes the entry up again, and
  the entry is Validating with that message still in it.
\<close>

theorem validating_keeps_error_message:
  "map_option results
     (exec [ClickValidate, FetchDone 0 (Rejected ''Failed to fetch''), Timer 0, AllDone 0,
            ClickValidate] single_key)
   = Some [\<lparr>key = ''sk-a'', status = Validating, models = [],
             errorMsg = Some (Msg (JStr ''Failed to fetch''))\<rparr>]"
  by code_simp

subsection \<open>A response that arrives after a stop\<close>

lemma set_worker_same_queue:
  "set_worker w p (queue_of s w) rs s =
     s\<lparr>workers := (workers s)[w := (fst (workers s ! w), p)], results := rs\<rparr>"
  by (simp add: set_worker_def queue_of_def Let_def)

text \<open>
  C3, as the code has it. A worker waits for its \<open>fetch\<close> of entry \<open>i\<close>; the run state is
  \<open>stopped\<close> when the call resolves with a response. Then, whatever the response is, the
  entry's status is set to Pending and nothing else in the table changes (no outcome, no
  models, no message is written), the run state and the queues stay, and the worker has
  left its loop: no timer and no answer can make it run again.
\<close>

theorem stopped_response_is_dropped:
  assumes "w < length (workers s)" and "workers s ! w = (r, AwaitFetch i)"
    and "i < length (results s)" and "statusRef s = Stopped"
  shows "\<exists>s'. step (FetchDone w (Response st)) s = Some s' \<and>
           s' = s\<lparr>workers := (workers s)[w := (r, Done)],
                   results := (results s)[i := (results s ! i)\<lparr>status := Pending\<rparr>]\<rparr> \<and>
           step (Timer w) s' = None \<and> step (FetchDone w f) s' = None \<and>
           step (JsonDone w b) s' = None"
  using assms
  by (simp add: step_def fetch_done_def update_entry_def set_status_def set_worker_same_queue)

theorem stopped_response_is_dropped_witness:
  "exec [ClickValidate, ClickStop, FetchDone 0 (Response 200)] single_key
   = Some \<lparr>input = ''sk-a'', ui_status = Idle, statusRef = Stopped, concurrencyLimit = 1,
        results = [\<lparr>key = ''sk-a'', status = Pending, models = [], errorMsg = None\<rparr>],
        runs = [\<lparr>queue = [], settled = False\<rparr>], workers = [(0, Done)]\<rparr>"
proof -
  have a: "exec [ClickValidate, ClickStop] single_key
      = Some \<lparr>input = ''sk-a'', ui_status = Idle, statusRef = Stopped, concurrencyLimit = 1,
        results = [\<lparr>key = ''sk-a'', status = Pending, models = [], errorMsg = None\<rparr>],
        runs = [\<lparr>queue = [], settled = False\<rparr>], workers = [(0, AwaitFetch 0)]\<rparr>"
    by code_simp
  let ?s = "\<lparr>input = ''sk-a'', ui_status = Idle, statusRef = Stopped, concurrencyLimit = 1,
        results = [\<lparr>key = ''sk-a'', status = Pending, models = [], errorMsg = None\<rparr>],
        runs = [\<lparr>queue = [], settled = False\<rparr>], workers = [(0, AwaitFetch 0)]\<rparr>"
  have b: "step (FetchDone 0 (Response 200)) ?s
      = Some \<lparr>input = ''sk-a'', ui_status = Idle, statusRef = Stopped, concurrencyLimit = 1,
        results = [\<lparr>key = ''sk-a'', status = Pending, models = [], errorMsg = None\<rparr>],
        runs = [\<lparr>queue = [], settled = False\<rparr>], workers = [(0, Done)]\<rparr>"
    using stopped_response_is_dropped [of 0 ?s 0 0 200] by simp
  have "exec ([ClickValidate, ClickStop] @ [FetchDone 0 (Response 200)]) single_key
      = Some \<lparr>input = ''sk-a'', ui_status = Idle, statusRef = Stopped, concurrencyLimit = 1,
        results = [\<lparr>key = ''sk-a'', status = Pending, models = [], errorMsg = None\<rparr>],
        runs = [\<lparr>queue = [], settled = False\<rparr>], workers = [(0, Done)]\<rparr>"
    by (simp only: exec_append a option.case) (simp add: b)
  then show ?thesis
    by simp
qed

text \<open>
  C3 as it is worded fails in two ways. A call that is in flight when the stop comes and
  then is rejected is recorded as Error. And when the stop comes while the body of a
  response is being read, the outcome of that response is recorded.
\<close>

theorem stopped_outcome_is_recorded:
  "map_option results
     (exec [ClickValidate, ClickStop, FetchDone 0 (Rejected ''Failed to fetch'')] single_key)
   = Some [\<lparr>key = ''sk-a'', status = Error, models = [],
             errorMsg = Some (Msg (JStr ''Failed to fetch''))\<rparr>] \<and>
   map_option results
     (exec [ClickValidate, FetchDone 0 (Response 200), ClickStop,
            JsonDone 0 (JsonValue (JObj [(''data'', JArr [JObj [(''id'', JStr ''gpt-4'')]])]))]
        single_key)
   = Some [\<lparr>key = ''sk-a'', status = Valid, models = [''gpt-4''], errorMsg = None\<rparr>]"
  by code_simp

subsection \<open>An attempt that no stop interrupts\<close>

text \<open>The function \<open>classify\<close> is what the steps of a worker make of the two answers: the
  entry of a rejected call, and the entry after a response and its body when the run
  state is not \<open>stopped\<close> as the response arrives.\<close>

lemma attempt_rejected:
  assumes "w < length (workers s)" and "workers s ! w = (r, AwaitFetch i)"
    and "i < length (results s)"
  shows "step (FetchDone w (Rejected m)) s =
     Some (s\<lparr>workers := (workers s)[w := (r, AwaitDelay)],
             results := (results s)[i := classify (Rejected m) b (results s ! i)]\<rparr>)"
  using assms
  by (simp add: step_def fetch_done_def update_entry_def classify_def set_worker_same_queue)

lemma attempt_answered:
  assumes "w < length (workers s)" and "workers s ! w = (r, AwaitFetch i)"
    and "i < length (results s)" and "statusRef s \<noteq> Stopped"
  shows "exec [FetchDone w (Response st), JsonDone w b] s =
     Some (s\<lparr>workers := (workers s)[w := (r, AwaitDelay)],
             results := (results s)[i := classify (Response st) b (results s ! i)]\<rparr>)"
proof (cases "response_ok st")
  case True
  let ?t = "s\<lparr>workers := (workers s)[w := (r, AwaitJsonOk i)]\<rparr>"
  have a: "step (FetchDone w (Response st)) s = Some ?t"
    using assms True
    by (simp add: step_def fetch_done_def set_worker_same_queue)
  have b: "step (JsonDone w b) ?t =
      Some (?t\<lparr>workers := (workers ?t)[w := (r, AwaitDelay)],
              results := (results s)[i := finish_ok b (results s ! i)]\<rparr>)"
    using assms
    by (simp add: step_def json_done_def update_entry_def set_worker_same_queue)
  show ?thesis
    using True by (simp add: a b classify_def)
next
  case False
  let ?t = "s\<lparr>workers := (workers s)[w := (r, AwaitJsonErr i st)]\<rparr>"
  have a: "step (FetchDone w (Response st)) s = Some ?t"
    using assms False
    by (simp add: step_def fetch_done_def set_worker_same_queue)
  have b: "step (JsonDone w b) ?t =
      Some (?t\<lparr>workers := (workers ?t)[w := (r, AwaitDelay)],
              results := (results s)[i := finish_not_ok st b (results s ! i)]\<rparr>)"
    using assms
    by (simp add: step_def json_done_def update_entry_def set_worker_same_queue)
  show ?thesis
    using False by (simp add: a b classify_def)
qed

subsection \<open>What a step of a worker does\<close>















lemma set_worker_fields [simp]:
  "workers (set_worker w p q rs s) = (workers s)[w := (fst (workers s ! w), p)]"
  "runs (set_worker w p q rs s) =
     (runs s)[fst (workers s ! w) := (runs s ! fst (workers s ! w))\<lparr>queue := q\<rparr>]"
  "results (set_worker w p q rs s) = rs"
  "statusRef (set_worker w p q rs s) = statusRef s"
  "ui_status (set_worker w p q rs s) = ui_status s"
  "input (set_worker w p q rs s) = input s"
  "concurrencyLimit (set_worker w p q rs s) = concurrencyLimit s"
  by (simp_all add: set_worker_def Let_def)










lemma processNext_runs_length [simp]: "length (runs (processNext r s)) = length (runs s)"
  by (simp add: processNext_def split: prod.splits)

lemma start_workers_runs_length [simp]:
  "length (runs (start_workers k r s)) = length (runs s)"
  by (induction k arbitrary: s) simp_all








subsection \<open>A run in isolation\<close>










subsection \<open>What belongs to a run\<close>











subsection \<open>The bound on concurrent attempts, and the entries a run leaves alone\<close>






subsection \<open>After a stop\<close>















subsection \<open>Reading in chunks\<close>

lemma is_key_char_newline [simp]: "\<not> is_key_char newline"
  by (simp add: is_key_char_def newline_def)

lemma key_chars [simp]: "is_key_char CHR ''s''" "is_key_char CHR ''k''" "is_key_char CHR ''-''"
  by (simp_all add: is_key_char_def)


























end
